theory Spec2Isabelle
  imports Complex_Main "HOL-Library.Sublist"
begin

section \<open>The Python error generator (python-error-app/app.py)\<close>

text \<open>
  The service is one module with two globals, \<^verbatim>\<open>request_count\<close> and
  \<^verbatim>\<open>memory_leak\<close>, four values read from the environment when the module is loaded,
  the function \<^verbatim>\<open>simulate_error\<close>, four Flask routes and a background loop.
  The embedding passes the globals as a record, returns the lines handed to \<^verbatim>\<open>logging\<close>
  as a list, and makes the two ways \<^verbatim>\<open>simulate_error\<close> can leave without returning
  (\<^verbatim>\<open>raise Exception(...)\<close> and \<^verbatim>\<open>sys.exit(1)\<close>) values of an outcome type.
  The two calls into \<^verbatim>\<open>random\<close> are inputs of each call.
\<close>

subsection \<open>Configuration and globals\<close>

text \<open>
  Lines 20 to 23. \<^verbatim>\<open>ERROR_RATE\<close> is a Python float; the only thing the module does
  with it is the comparison \<^verbatim>\<open>random.random() < ERROR_RATE\<close> of line 57, which on
  finite floats is the comparison of the numbers they stand for, so it is a \<^typ>\<open>real\<close>
  here. (An infinite rate compares like a rate of 2 or of -1, a NaN rate like a rate of 0.)
  \<^verbatim>\<open>CRASH_AFTER\<close> is an unbounded Python integer.
\<close>

record config =
  ERROR_TYPE :: string
  ERROR_RATE :: real
  CRASH_AFTER :: int
  OOM_TRIGGER :: bool

text \<open>Lines 25 and 26: the globals and their values when the module is loaded.\<close>

record state =
  request_count :: int
  memory_leak :: "int list list"

definition initial_state :: state where
  "initial_state = \<lparr>request_count = 0, memory_leak = []\<rparr>"

subsection \<open>Log records\<close>

text \<open>
  \<^verbatim>\<open>logging.basicConfig(level=logging.INFO, ...)\<close> lets every level used in the module
  through, so each call of \<^verbatim>\<open>logging.info/warning/error/critical\<close> is one record:
  its level and its message. Messages are byte strings in UTF-8; the four pictographs of
  the source are written out as their bytes.
\<close>

datatype levelname = INFO | WARNING | ERROR | CRITICAL

type_synonym log_record = "levelname \<times> string"

definition collision :: string where
  "collision = [CHR 0xF0, CHR 0x9F, CHR 0x92, CHR 0xA5]"

definition warning_sign :: string where
  "warning_sign = [CHR 0xE2, CHR 0x9A, CHR 0xA0, CHR 0xEF, CHR 0xB8, CHR 0x8F]"

definition cross_mark :: string where
  "cross_mark = [CHR 0xE2, CHR 0x9D, CHR 0x8C]"

definition chart_up :: string where
  "chart_up = [CHR 0xF0, CHR 0x9F, CHR 0x93, CHR 0x88]"

text \<open>Python's \<^verbatim>\<open>str\<close> on an integer, as the f-strings apply it.\<close>

fun str_nat :: "nat \<Rightarrow> string" where
  "str_nat n =
     (if n < 10 then [''0123456789'' ! n]
      else str_nat (n div 10) @ [''0123456789'' ! (n mod 10)])"

declare str_nat.simps [simp del]

definition str_int :: "int \<Rightarrow> string" where
  "str_int i = (if i < 0 then CHR ''-'' # str_nat (nat (- i)) else str_nat (nat i))"

text \<open>The f-strings of lines 47, 54, 59 and 109.\<close>

definition crash_message :: "int \<Rightarrow> string" where
  "crash_message n =
     collision @ '' FATAL: Crash limit reached after '' @ str_int n @ '' requests!''"

definition leak_message :: "nat \<Rightarrow> string" where
  "leak_message len =
     warning_sign @ ''  Memory leak: '' @ str_int (int len * 10000) @ '' items allocated''"

definition error_prefix :: string where
  "error_prefix = cross_mark @ '' ERROR [''"

definition error_message :: "int \<Rightarrow> string \<Rightarrow> string" where
  "error_message n error_msg = error_prefix @ str_int n @ '']: '' @ error_msg"

definition status_message :: "int \<Rightarrow> string" where
  "status_message n = chart_up @ '' Status: '' @ str_int n @ '' requests processed''"

subsection \<open>The message catalogue and the random inputs\<close>

definition ERROR_MESSAGES :: "string list" where
  \<open>ERROR_MESSAGES =
    [''DatabaseConnectionError: Unable to connect to PostgreSQL at db:5432'',
     ''RedisConnectionError: Connection refused to redis:6379'',
     ''TimeoutException: Request to external API timed out after 30s'',
     ''AuthenticationError: JWT token expired or invalid'',
     ''PermissionDenied: Insufficient permissions to access resource'',
     ''FileNotFoundError: Configuration file /etc/app/config.yaml not found'',
     ''NetworkError: Failed to resolve DNS for api.service.local'',
     ''ValueError: Invalid input format in request payload'',
     ''KeyError: Required field "user_id" missing from request'',
     ''ImportError: Module "critical_dependency" not found'']\<close>

text \<open>
  One call of \<^verbatim>\<open>simulate_error\<close> reads the random generator at most twice:
  \<^verbatim>\<open>random.random()\<close>, a float \<open>u\<close> with \<open>0 \<le> u < 1\<close>, and
  \<^verbatim>\<open>random.choice(ERROR_MESSAGES)\<close>, which indexes the list at a random position
  below its length. Both readings are inputs; \<open>pick\<close> is the generator's raw number and
  \<open>random_choice\<close> brings it below the length, so that every input selects an element
  of the list and every element can be selected.
\<close>

record rnd =
  draw :: real
  pick :: nat

definition valid_rnd :: "rnd \<Rightarrow> bool" where
  "valid_rnd r = (0 \<le> draw r \<and> draw r < 1)"

definition random_choice :: "'a list \<Rightarrow> nat \<Rightarrow> 'a" where
  "random_choice xs k = xs ! (k mod length xs)"

subsection \<open>Outcomes\<close>

text \<open>
  A call returns, or raises \<^verbatim>\<open>Exception(error_msg)\<close>, or calls \<^verbatim>\<open>sys.exit(code)\<close>.
  Together with the outcome come the records logged during the call and the globals after
  it: Python rolls nothing back when an exception or an exit unwinds the call.
\<close>

datatype 'a outcome = Return 'a | Raise string | SysExit int

type_synonym 'a effect = "'a outcome \<times> log_record list \<times> state"

fun is_exit :: "'a outcome \<Rightarrow> bool" where
  "is_exit (SysExit c) = True"
| "is_exit (Return x) = False"
| "is_exit (Raise m) = False"

subsection \<open>simulate\_error\<close>

text \<open>Lines 51 to 54: the memory leak simulation.\<close>

definition memory_leak_simulation :: "config \<Rightarrow> state \<Rightarrow> log_record list \<times> state" where
  "memory_leak_simulation cfg st =
     (if OOM_TRIGGER cfg then
        (let st' = st\<lparr>memory_leak := memory_leak st @ [replicate 10000 0]\<rparr>
         in (if length (memory_leak st') mod 10 = 0
             then [(WARNING, leak_message (length (memory_leak st')))]
             else [],
             st'))
      else ([], st))"

text \<open>Lines 65 to 72: the \<^verbatim>\<open>if/elif\<close> chain on \<^verbatim>\<open>ERROR_TYPE\<close>.\<close>

definition specific_error_types :: "config \<Rightarrow> log_record list" where
  \<open>specific_error_types cfg =
     (if ERROR_TYPE cfg = ''import-error'' then
        [(ERROR, cross_mark @
           '' ImportError: Failed to import required module "database_connector"'')]
      else if ERROR_TYPE cfg = ''db-error'' then
        [(ERROR, cross_mark @
           '' DatabaseError: Connection pool exhausted, max connections: 100'')]
      else if ERROR_TYPE cfg = ''api-error'' then
        [(ERROR, cross_mark @
           '' APIError: Upstream service returned 503 Service Unavailable'')]
      else if ERROR_TYPE cfg = ''disk-full'' then
        [(ERROR, cross_mark @
           '' IOError: [Errno 28] No space left on device: "/var/log/app.log"'')]
      else [])\<close>

text \<open>Lines 41 to 72.\<close>

definition simulate_error :: "config \<Rightarrow> rnd \<Rightarrow> state \<Rightarrow> unit effect" where
  "simulate_error cfg r st =
     (let st1 = st\<lparr>request_count := request_count st + 1\<rparr> in
      if CRASH_AFTER cfg > 0 \<and> request_count st1 \<ge> CRASH_AFTER cfg then
        (SysExit 1, [(CRITICAL, crash_message (request_count st1))], st1)
      else
        (case memory_leak_simulation cfg st1 of (leak_log, st2) \<Rightarrow>
           if draw r < ERROR_RATE cfg then
             (let error_msg = random_choice ERROR_MESSAGES (pick r);
                  error_log = [(ERROR, error_message (request_count st2) error_msg)]
              in if ERROR_TYPE cfg = ''panic''
                 then (Raise error_msg, leak_log @ error_log, st2)
                 else (Return (), leak_log @ error_log @ specific_error_types cfg, st2))
           else (Return (), leak_log @ specific_error_types cfg, st2)))"

subsection \<open>The routes and the background loop\<close>

text \<open>
  \<^verbatim>\<open>jsonify\<close> builds a JSON object from a dictionary; a view that returns it alone
  answers with status 200, a view that returns a pair answers with the pair's status.
  The pairs of an object are listed in the order the source writes them; a float is a
  \<open>JFloat\<close> of its value, so that \<^verbatim>\<open>0.0\<close> is the JSON number 0.
\<close>

datatype json =
    JString string
  | JInt int
  | JFloat real
  | JBool bool
  | JObject "(string \<times> json) list"

record response =
  status :: nat
  body :: json

definition health :: "config \<Rightarrow> state \<Rightarrow> response effect" where
  "health cfg st =
     (if ERROR_TYPE cfg = ''unhealthy'' then
        (Return \<lparr>status = 500,
                 body = JObject [(''status'', JString ''unhealthy''),
                                 (''error'', JString ''Service degraded'')]\<rparr>, [], st)
      else
        (Return \<lparr>status = 200,
                 body = JObject [(''status'', JString ''healthy''),
                                 (''requests'', JInt (request_count st))]\<rparr>, [], st))"

definition ready :: "config \<Rightarrow> state \<Rightarrow> response effect" where
  "ready cfg st =
     (if ERROR_TYPE cfg = ''not-ready'' then
        (Return \<lparr>status = 503,
                 body = JObject [(''ready'', JBool False),
                                 (''reason'', JString ''Dependencies unavailable'')]\<rparr>, [], st)
      else
        (Return \<lparr>status = 200, body = JObject [(''ready'', JBool True)]\<rparr>, [], st))"

text \<open>
  Lines 86 to 94. An exception or an exit inside \<^verbatim>\<open>simulate_error\<close> leaves
  \<^verbatim>\<open>index\<close> at the call: the view has no handler around it.
\<close>

definition index :: "config \<Rightarrow> rnd \<Rightarrow> state \<Rightarrow> response effect" where
  "index cfg r st =
     (case simulate_error cfg r st of (oc, lg, st') \<Rightarrow>
        (case oc of
           Return u \<Rightarrow>
             (Return \<lparr>status = 200,
                      body = JObject [(''message'', JString ''Python service running''),
                                      (''requests'', JInt (request_count st')),
                                      (''error_type'', JString (ERROR_TYPE cfg)),
                                      (''error_rate'', JFloat (ERROR_RATE cfg))]\<rparr>, lg, st')
         | Raise m \<Rightarrow> (Raise m, lg, st')
         | SysExit c \<Rightarrow> (SysExit c, lg, st')))"

text \<open>
  Lines 96 to 102. \<open>now\<close> is the text \<^verbatim>\<open>datetime.now().isoformat()\<close> gives when the
  view runs.
\<close>

definition metrics :: "config \<Rightarrow> string \<Rightarrow> state \<Rightarrow> response effect" where
  "metrics cfg now st =
     (Return \<lparr>status = 200,
              body = JObject [(''requests_total'', JInt (request_count st)),
                              (''error_type'', JString (ERROR_TYPE cfg)),
                              (''timestamp'', JString now)]\<rparr>, [], st)"

text \<open>
  Lines 107 to 109: one turn of the loop of \<^verbatim>\<open>background_logger\<close>, after its sleep.
\<close>

definition background_logger_turn :: "config \<Rightarrow> rnd \<Rightarrow> state \<Rightarrow> unit effect" where
  "background_logger_turn cfg r st =
     (case simulate_error cfg r st of (oc, lg, st') \<Rightarrow>
        (case oc of
           Return u \<Rightarrow> (Return (), lg @ [(INFO, status_message (request_count st'))], st')
         | Raise m \<Rightarrow> (Raise m, lg, st')
         | SysExit c \<Rightarrow> (SysExit c, lg, st')))"

subsection \<open>Successive calls in one process\<close>

text \<open>
  \<open>calls h st ins\<close> makes the calls \<open>h i\<close> one after the other on the globals, for the
  inputs \<open>i\<close> of \<open>ins\<close> in order, and gives the outcome and the log records of each
  call made, and the globals at the end. The calls are made one at a time, none starting
  before the one before it has ended. A raised exception ends its call only, and so does
  \<^verbatim>\<open>sys.exit\<close>: \<^verbatim>\<open>simulate_error\<close> is called from the views, which the server runs
  in its request threads, and from \<^verbatim>\<open>background_logger\<close>, which line 121 starts as a
  daemon thread, and the \<^verbatim>\<open>SystemExit\<close> that \<^verbatim>\<open>sys.exit\<close> raises in a thread other
  than the main one ends that thread and leaves the process running. The next call is
  made on the globals the call left.
\<close>

fun calls :: "('i \<Rightarrow> state \<Rightarrow> 'a effect) \<Rightarrow> state \<Rightarrow> 'i list
    \<Rightarrow> ('a outcome \<times> log_record list) list \<times> state" where
  "calls h st [] = ([], st)"
| "calls h st (i # ins) =
     (case h i st of (oc, lg, st1) \<Rightarrow>
        (case calls h st1 ins of (tr, st2) \<Rightarrow> ((oc, lg) # tr, st2)))"

subsection \<open>Reading a log\<close>

definition crash_limit_reached :: "config \<Rightarrow> state \<Rightarrow> bool" where
  "crash_limit_reached cfg st =
     (CRASH_AFTER cfg > 0 \<and> request_count st + 1 \<ge> CRASH_AFTER cfg)"

definition at_level :: "levelname \<Rightarrow> log_record list \<Rightarrow> log_record list" where
  "at_level l lg = filter (\<lambda>e. fst e = l) lg"

text \<open>
  The records of line 59 are the error records whose message starts with the prefix of
  that f-string; no fixed message of lines 66 to 72 starts so.
\<close>

definition probabilistic_errors :: "log_record list \<Rightarrow> log_record list" where
  "probabilistic_errors lg = filter (\<lambda>e. fst e = ERROR \<and> prefix error_prefix (snd e)) lg"

definition all_logs :: "('a outcome \<times> log_record list) list \<Rightarrow> log_record list" where
  "all_logs tr = concat (map snd tr)"

section \<open>Properties\<close>

subsection \<open>One call of simulate\_error\<close>

lemma simulate_error_count:
  "request_count (snd (snd (simulate_error cfg r st))) = request_count st + 1"
  by (simp add: simulate_error_def memory_leak_simulation_def Let_def split: prod.splits)

lemma simulate_error_crash:
  "crash_limit_reached cfg st \<Longrightarrow>
   simulate_error cfg r st =
     (SysExit 1, [(CRITICAL, crash_message (request_count st + 1))],
      st\<lparr>request_count := request_count st + 1\<rparr>)"
  by (simp add: simulate_error_def crash_limit_reached_def)

lemma simulate_error_no_crash:
  "\<not> crash_limit_reached cfg st \<Longrightarrow>
   \<not> is_exit (fst (simulate_error cfg r st)) \<and>
   at_level CRITICAL (fst (snd (simulate_error cfg r st))) = []"
  by (auto simp add: simulate_error_def crash_limit_reached_def memory_leak_simulation_def
      Let_def at_level_def specific_error_types_def split: prod.splits)

subsection \<open>Successive calls\<close>

lemma calls_step:
  "calls h st (i # ins) =
     ((fst (h i st), fst (snd (h i st))) # fst (calls h (snd (snd (h i st))) ins),
      snd (calls h (snd (snd (h i st))) ins))"
  by (simp split: prod.splits)

lemma calls_append:
  "calls h st (xs @ ys) =
     (fst (calls h st xs) @ fst (calls h (snd (calls h st xs)) ys),
      snd (calls h (snd (calls h st xs)) ys))"
proof (induction xs arbitrary: st)
  case Nil
  show ?case by simp
next
  case (Cons x xs)
  from Cons.IH [of "snd (snd (h x st))"] show ?case
    by (simp add: calls_step del: calls.simps)
qed

text \<open>
  Once the crash limit is reached it stays reached: every call from then on logs the
  critical record for the counter it has just incremented, and exits.
\<close>

lemma crash_limit_stays_reached:
  "crash_limit_reached cfg st \<Longrightarrow>
   crash_limit_reached cfg (st\<lparr>request_count := request_count st + 1\<rparr>)"
  by (simp add: crash_limit_reached_def)

lemma calls_at_limit:
  "crash_limit_reached cfg st \<Longrightarrow>
   calls (simulate_error cfg) st rs =
     (map (\<lambda>j. (SysExit 1, [(CRITICAL, crash_message (request_count st + 1 + int j))]))
        [0 ..< length rs],
      st\<lparr>request_count := request_count st + int (length rs)\<rparr>)"
proof (induction rs arbitrary: st)
  case Nil
  show ?case by simp
next
  case (Cons r rs)
  let ?st1 = "st\<lparr>request_count := request_count st + 1\<rparr>"
  note step = simulate_error_crash [OF Cons.prems, of r]
  have m: "map (\<lambda>j. (SysExit 1, [(CRITICAL, crash_message (request_count st + 1 + int j))]))
          [0 ..< length (r # rs)] =
        (SysExit 1, [(CRITICAL, crash_message (request_count st + 1))]) #
        map (\<lambda>j. (SysExit 1, [(CRITICAL, crash_message (request_count ?st1 + 1 + int j))]))
          [0 ..< length rs]"
    by (simp add: map_upt_Suc add.commute add.left_commute del: upt_Suc)
  show ?case
    unfolding m
    using Cons.IH [OF crash_limit_stays_reached [OF Cons.prems]]
    by (simp add: calls_step step del: calls.simps upt_Suc)
qed

lemma calls_below_limit:
  "CRASH_AFTER cfg \<le> 0 \<or> request_count st + int (length rs) < CRASH_AFTER cfg \<Longrightarrow>
   length (fst (calls (simulate_error cfg) st rs)) = length rs \<and>
   (\<forall>e\<in>set (fst (calls (simulate_error cfg) st rs)).
       \<not> is_exit (fst e) \<and> at_level CRITICAL (snd e) = []) \<and>
   request_count (snd (calls (simulate_error cfg) st rs)) = request_count st + int (length rs)"
proof (induction rs arbitrary: st)
  case Nil
  show ?case by simp
next
  case (Cons r rs)
  let ?st1 = "snd (snd (simulate_error cfg r st))"
  from Cons.prems have nc: "\<not> crash_limit_reached cfg st"
    by (auto simp add: crash_limit_reached_def)
  have c1: "request_count ?st1 = request_count st + 1"
    by (rule simulate_error_count)
  with Cons.prems
  have "CRASH_AFTER cfg \<le> 0 \<or> request_count ?st1 + int (length rs) < CRASH_AFTER cfg"
    by auto
  from Cons.IH [OF this] simulate_error_no_crash [OF nc, of r] c1 show ?case
    by (simp add: calls_step del: calls.simps)
qed

subsection \<open>The request counter\<close>

text \<open>
  Claim C3. Every call of \<^verbatim>\<open>simulate_error\<close> leaves \<^verbatim>\<open>request_count\<close> greater by
  exactly 1, whatever the configuration, the random inputs and the globals are, and so
  whichever way the call ends (return, raised exception, exit). The two callers,
  \<^verbatim>\<open>index\<close> and the background loop, change the counter through that call only, and
  the other three views leave the globals as they are.
\<close>

theorem request_count_incremented_once:
  "request_count (snd (snd (simulate_error cfg r st))) = request_count st + 1 \<and>
   request_count (snd (snd (index cfg r st))) = request_count st + 1 \<and>
   request_count (snd (snd (background_logger_turn cfg r st))) = request_count st + 1 \<and>
   snd (snd (health cfg st)) = st \<and>
   snd (snd (ready cfg st)) = st \<and>
   snd (snd (metrics cfg now st)) = st"
proof -
  have "snd (snd (index cfg r st)) = snd (snd (simulate_error cfg r st))"
    by (simp add: index_def split: prod.splits outcome.splits)
  moreover
  have "snd (snd (background_logger_turn cfg r st)) = snd (snd (simulate_error cfg r st))"
    by (simp add: background_logger_turn_def split: prod.splits outcome.splits)
  ultimately show ?thesis
    by (simp add: simulate_error_count health_def ready_def metrics_def)
qed

subsection \<open>The crash limit\<close>

text \<open>
  Claim C1. Let \<^verbatim>\<open>CRASH_AFTER\<close> be \<open>N > 0\<close> and let at least \<open>N\<close> calls of
  \<^verbatim>\<open>simulate_error\<close> be made from the initial globals. The first \<open>N - 1\<close> calls
  all take place, none of them exits and none logs a critical record. The \<open>N\<close>th call,
  the one that brings \<^verbatim>\<open>request_count\<close> to \<open>N\<close>, logs the one critical record of line
  47 and nothing else, calls \<^verbatim>\<open>sys.exit(1)\<close>, and changes the counter only: neither the
  leak, nor the random error, nor the fixed error of that call happens. So far the claim
  holds. But the exit ends the calling thread, not the process, and the exit does not
  happen once: every call after the \<open>N\<close>th is made as well, increments the counter, logs
  the critical record again and exits again, so that \<open>length rs\<close> calls leave the counter
  at \<open>length rs\<close> and \<open>length rs - (N - 1)\<close> critical records in the log.
\<close>

theorem crash_limit_exits_from_Nth_call_on:
  assumes "0 < CRASH_AFTER cfg" and "nat (CRASH_AFTER cfg) \<le> length rs"
  shows "let earlier = calls (simulate_error cfg) initial_state (take (nat (CRASH_AFTER cfg) - 1) rs)
         in length (fst earlier) = nat (CRASH_AFTER cfg) - 1 \<and>
            (\<forall>e\<in>set (fst earlier). \<not> is_exit (fst e) \<and> at_level CRITICAL (snd e) = []) \<and>
            calls (simulate_error cfg) initial_state rs =
              (fst earlier @
               map (\<lambda>j. (SysExit 1, [(CRITICAL, crash_message (CRASH_AFTER cfg + int j))]))
                 [0 ..< length rs - (nat (CRASH_AFTER cfg) - 1)],
               (snd earlier)\<lparr>request_count := int (length rs)\<rparr>)"
proof -
  define k where "k = nat (CRASH_AFTER cfg) - 1"
  define earlier where "earlier = calls (simulate_error cfg) initial_state (take k rs)"
  from assms have k: "int k = CRASH_AFTER cfg - 1" and klen: "k < length rs"
    by (auto simp add: k_def)
  have len: "length (take k rs) = k"
    using klen by simp
  have "CRASH_AFTER cfg \<le> 0 \<or>
        request_count initial_state + int (length (take k rs)) < CRASH_AFTER cfg"
    using k len by (simp add: initial_state_def)
  from calls_below_limit [OF this]
  have e1: "length (fst earlier) = k"
    and e2: "\<forall>e\<in>set (fst earlier). \<not> is_exit (fst e) \<and> at_level CRITICAL (snd e) = []"
    and e3: "request_count (snd earlier) = CRASH_AFTER cfg - 1"
    using k len by (simp_all add: earlier_def initial_state_def)
  from e3 assms(1) have reached: "crash_limit_reached cfg (snd earlier)"
    by (simp add: crash_limit_reached_def)
  have "calls (simulate_error cfg) initial_state rs =
        calls (simulate_error cfg) initial_state (take k rs @ drop k rs)"
    by simp
  also have "\<dots> = (fst earlier @ fst (calls (simulate_error cfg) (snd earlier) (drop k rs)),
                   snd (calls (simulate_error cfg) (snd earlier) (drop k rs)))"
    unfolding earlier_def by (rule calls_append)
  also have "calls (simulate_error cfg) (snd earlier) (drop k rs) =
             (map (\<lambda>j. (SysExit 1, [(CRITICAL, crash_message (CRASH_AFTER cfg + int j))]))
                [0 ..< length rs - k],
              (snd earlier)\<lparr>request_count := int (length rs)\<rparr>)"
    using e3 k klen by (simp add: calls_at_limit [OF reached])
  finally have "calls (simulate_error cfg) initial_state rs =
      (fst earlier @
       map (\<lambda>j. (SysExit 1, [(CRITICAL, crash_message (CRASH_AFTER cfg + int j))]))
         [0 ..< length rs - k],
       (snd earlier)\<lparr>request_count := int (length rs)\<rparr>)"
    by simp
  with e1 e2 show ?thesis
    unfolding Let_def earlier_def k_def by blast
qed

theorem crash_limit_exits_from_Nth_call_on_witness:
  "calls (simulate_error
       \<lparr>ERROR_TYPE = ''none'', ERROR_RATE = 0, CRASH_AFTER = 1, OOM_TRIGGER = False\<rparr>)
     initial_state [\<lparr>draw = 1/2, pick = 0\<rparr>, \<lparr>draw = 0, pick = 1\<rparr>, \<lparr>draw = 1/4, pick = 2\<rparr>] =
   ([(SysExit 1, [(CRITICAL, collision @ '' FATAL: Crash limit reached after 1 requests!'')]),
     (SysExit 1, [(CRITICAL, collision @ '' FATAL: Crash limit reached after 2 requests!'')]),
     (SysExit 1, [(CRITICAL, collision @ '' FATAL: Crash limit reached after 3 requests!'')])],
    \<lparr>request_count = 3, memory_leak = []\<rparr>)"
  using crash_limit_exits_from_Nth_call_on
    [of "\<lparr>ERROR_TYPE = ''none'', ERROR_RATE = 0, CRASH_AFTER = 1, OOM_TRIGGER = False\<rparr>"
        "[\<lparr>draw = 1/2, pick = 0\<rparr>, \<lparr>draw = 0, pick = 1\<rparr>, \<lparr>draw = 1/4, pick = 2\<rparr>]"]
  by (simp add: Let_def initial_state_def simulate_error_def crash_message_def
      str_int_def str_nat.simps)

subsection \<open>The callers of simulate\_error\<close>

lemma index_simulate_error:
  "is_exit (fst (index cfg r st)) = is_exit (fst (simulate_error cfg r st)) \<and>
   (fst (index cfg r st) = Raise m) = (fst (simulate_error cfg r st) = Raise m) \<and>
   fst (snd (index cfg r st)) = fst (snd (simulate_error cfg r st)) \<and>
   snd (snd (index cfg r st)) = snd (snd (simulate_error cfg r st))"
  by (simp add: index_def split: prod.splits outcome.splits)

lemma background_logger_turn_simulate_error:
  "is_exit (fst (background_logger_turn cfg r st)) = is_exit (fst (simulate_error cfg r st)) \<and>
   (fst (background_logger_turn cfg r st) = Raise m) = (fst (simulate_error cfg r st) = Raise m) \<and>
   snd (snd (background_logger_turn cfg r st)) = snd (snd (simulate_error cfg r st))"
  by (simp add: background_logger_turn_def split: prod.splits outcome.splits)

subsection \<open>No crash limit\<close>

lemma at_level_all_logs_empty:
  "\<forall>e\<in>set tr. at_level l (snd e) = [] \<Longrightarrow> at_level l (all_logs tr) = []"
  by (induction tr) (auto simp add: all_logs_def at_level_def)

lemma no_exit_map:
  "\<forall>e\<in>set tr. \<not> is_exit (fst e) \<Longrightarrow>
   map (\<lambda>e. is_exit (fst e)) tr = replicate (length tr) False"
  by (induction tr) auto

text \<open>
  Claim C2. With \<^verbatim>\<open>CRASH_AFTER = 0\<close> no call of \<^verbatim>\<open>simulate_error\<close> ends in
  \<^verbatim>\<open>sys.exit\<close>, from whatever globals it starts and whatever the random inputs are,
  neither called directly nor through \<^verbatim>\<open>index\<close> or the background loop; and of any
  number of successive calls every one is made and none exits.
\<close>

theorem crash_after_zero_never_exits:
  assumes "CRASH_AFTER cfg = 0"
  shows "\<not> is_exit (fst (simulate_error cfg r st)) \<and>
         \<not> is_exit (fst (index cfg r st)) \<and>
         \<not> is_exit (fst (background_logger_turn cfg r st)) \<and>
         length (fst (calls (simulate_error cfg) st rs)) = length rs \<and>
         (\<forall>e\<in>set (fst (calls (simulate_error cfg) st rs)). \<not> is_exit (fst e))"
proof -
  from assms have nc: "\<not> crash_limit_reached cfg st"
    by (simp add: crash_limit_reached_def)
  from assms
  have "CRASH_AFTER cfg \<le> 0 \<or> request_count st + int (length rs) < CRASH_AFTER cfg"
    by simp
  from calls_below_limit [OF this] simulate_error_no_crash [OF nc, of r] show ?thesis
    by (simp add: index_simulate_error background_logger_turn_simulate_error)
qed

theorem crash_after_zero_never_exits_witness:
  "map (\<lambda>e. is_exit (fst e))
     (fst (calls (simulate_error
        \<lparr>ERROR_TYPE = ''api-error'', ERROR_RATE = 1, CRASH_AFTER = 0, OOM_TRIGGER = False\<rparr>)
        \<lparr>request_count = 41, memory_leak = []\<rparr>
        [\<lparr>draw = 0, pick = 2\<rparr>, \<lparr>draw = 1/3, pick = 5\<rparr>, \<lparr>draw = 3/4, pick = 9\<rparr>])) =
   [False, False, False]"
  using crash_after_zero_never_exits
    [of "\<lparr>ERROR_TYPE = ''api-error'', ERROR_RATE = 1, CRASH_AFTER = 0, OOM_TRIGGER = False\<rparr>"
        "\<lparr>draw = 0, pick = 2\<rparr>" "\<lparr>request_count = 41, memory_leak = []\<rparr>"
        "[\<lparr>draw = 0, pick = 2\<rparr>, \<lparr>draw = 1/3, pick = 5\<rparr>, \<lparr>draw = 3/4, pick = 9\<rparr>]"]
  by (simp add: simulate_error_def memory_leak_simulation_def)

text \<open>
  Claim C10. For every \<^verbatim>\<open>CRASH_AFTER\<close> at or below 0, negative values included, the
  test of line 46 is false in every state: no call exits, no call logs the critical record
  of line 47, and over any number of successive calls the whole log holds no critical
  record and no outcome is an exit.
\<close>

theorem crash_policy_disabled_at_or_below_zero:
  assumes "CRASH_AFTER cfg \<le> 0"
  shows "\<not> crash_limit_reached cfg st \<and>
         fst (simulate_error cfg r st) \<noteq> SysExit c \<and>
         at_level CRITICAL (fst (snd (simulate_error cfg r st))) = [] \<and>
         at_level CRITICAL (all_logs (fst (calls (simulate_error cfg) st rs))) = [] \<and>
         map (\<lambda>e. is_exit (fst e)) (fst (calls (simulate_error cfg) st rs)) =
           replicate (length rs) False"
proof -
  let ?tr = "fst (calls (simulate_error cfg) st rs)"
  from assms have nc: "\<not> crash_limit_reached cfg st"
    by (simp add: crash_limit_reached_def)
  from assms
  have "CRASH_AFTER cfg \<le> 0 \<or> request_count st + int (length rs) < CRASH_AFTER cfg"
    by simp
  from calls_below_limit [OF this]
  have len: "length ?tr = length rs"
    and all: "\<forall>e\<in>set ?tr. \<not> is_exit (fst e) \<and> at_level CRITICAL (snd e) = []"
    by simp_all
  from all have "at_level CRITICAL (all_logs ?tr) = []"
    by (simp add: at_level_all_logs_empty)
  moreover from len all
  have "map (\<lambda>e. is_exit (fst e)) ?tr = replicate (length rs) False"
    using no_exit_map [of ?tr] by simp
  moreover from simulate_error_no_crash [OF nc, of r]
  have "fst (simulate_error cfg r st) \<noteq> SysExit c"
    by (cases "fst (simulate_error cfg r st)") auto
  ultimately show ?thesis
    using nc simulate_error_no_crash [OF nc, of r] by simp
qed

theorem crash_policy_disabled_at_or_below_zero_witness:
  "at_level CRITICAL (all_logs (fst (calls (simulate_error
        \<lparr>ERROR_TYPE = ''none'', ERROR_RATE = 0, CRASH_AFTER = - 2, OOM_TRIGGER = False\<rparr>)
        initial_state [\<lparr>draw = 0, pick = 0\<rparr>, \<lparr>draw = 1/2, pick = 1\<rparr>]))) = [] \<and>
   map fst (fst (calls (simulate_error
        \<lparr>ERROR_TYPE = ''none'', ERROR_RATE = 0, CRASH_AFTER = - 2, OOM_TRIGGER = False\<rparr>)
        initial_state [\<lparr>draw = 0, pick = 0\<rparr>, \<lparr>draw = 1/2, pick = 1\<rparr>])) =
     [Return (), Return ()]"
  using crash_policy_disabled_at_or_below_zero
    [of "\<lparr>ERROR_TYPE = ''none'', ERROR_RATE = 0, CRASH_AFTER = - 2, OOM_TRIGGER = False\<rparr>"
        initial_state "\<lparr>draw = 0, pick = 0\<rparr>" 1
        "[\<lparr>draw = 0, pick = 0\<rparr>, \<lparr>draw = 1/2, pick = 1\<rparr>]"]
  by (simp add: simulate_error_def memory_leak_simulation_def initial_state_def
      specific_error_types_def)

subsection \<open>State after a raised exception\<close>

text \<open>
  Claim C9. When a call of \<^verbatim>\<open>simulate_error\<close> ends in \<^verbatim>\<open>raise Exception(error_msg)\<close>,
  the globals after it are those before it with \<^verbatim>\<open>request_count\<close> greater by 1 and,
  if \<^verbatim>\<open>OOM_TRIGGER\<close> is set, with the block of line 52 appended to
  \<^verbatim>\<open>memory_leak\<close>; nothing is rolled back. The callers that the exception passes
  through see the same globals.
\<close>

theorem panic_keeps_state:
  assumes "fst (simulate_error cfg r st) = Raise m"
  shows "snd (snd (simulate_error cfg r st)) =
           st\<lparr>request_count := request_count st + 1,
              memory_leak := (if OOM_TRIGGER cfg then memory_leak st @ [replicate 10000 0]
                              else memory_leak st)\<rparr> \<and>
         snd (snd (index cfg r st)) = snd (snd (simulate_error cfg r st)) \<and>
         snd (snd (background_logger_turn cfg r st)) = snd (snd (simulate_error cfg r st))"
  using assms
  by (simp add: index_simulate_error background_logger_turn_simulate_error)
     (auto simp add: simulate_error_def memory_leak_simulation_def Let_def
       split: if_splits prod.splits)

theorem panic_keeps_state_witness:
  "simulate_error
     \<lparr>ERROR_TYPE = ''panic'', ERROR_RATE = 1/2, CRASH_AFTER = 0, OOM_TRIGGER = True\<rparr>
     \<lparr>draw = 1/4, pick = 8\<rparr> \<lparr>request_count = 6, memory_leak = [replicate 10000 0]\<rparr> =
   (Raise ''KeyError: Required field \"user_id\" missing from request'',
    [(ERROR, cross_mark @ '' ERROR [7]: KeyError: Required field \"user_id\" missing from request'')],
    \<lparr>request_count = 7, memory_leak = [replicate 10000 0, replicate 10000 0]\<rparr>)"
  using panic_keeps_state
    [of "\<lparr>ERROR_TYPE = ''panic'', ERROR_RATE = 1/2, CRASH_AFTER = 0, OOM_TRIGGER = True\<rparr>"
        "\<lparr>draw = 1/4, pick = 8\<rparr>" "\<lparr>request_count = 6, memory_leak = [replicate 10000 0]\<rparr>"
        "''KeyError: Required field \"user_id\" missing from request''"]
  by (simp add: simulate_error_def memory_leak_simulation_def random_choice_def Let_def
      ERROR_MESSAGES_def error_message_def error_prefix_def str_int_def str_nat.simps)

subsection \<open>The raised exception\<close>

lemma random_choice_ERROR_MESSAGES:
  "random_choice ERROR_MESSAGES k \<in> set ERROR_MESSAGES"
proof -
  have "length ERROR_MESSAGES = 10"
    by (simp add: ERROR_MESSAGES_def)
  then have "k mod length ERROR_MESSAGES < length ERROR_MESSAGES"
    by simp
  then show ?thesis
    unfolding random_choice_def by (rule nth_mem)
qed

lemma memory_leak_simulation_count:
  "memory_leak_simulation cfg st = (lg, st') \<Longrightarrow> request_count st' = request_count st"
  by (auto simp add: memory_leak_simulation_def Let_def split: if_splits)

lemma simulate_error_log:
  "\<not> crash_limit_reached cfg st \<Longrightarrow>
   fst (snd (simulate_error cfg r st)) =
     fst (memory_leak_simulation cfg (st\<lparr>request_count := request_count st + 1\<rparr>)) @
     (if draw r < ERROR_RATE cfg
      then (ERROR, error_message (request_count st + 1)
                     (random_choice ERROR_MESSAGES (pick r))) #
           (if ERROR_TYPE cfg = ''panic'' then [] else specific_error_types cfg)
      else specific_error_types cfg)"
  by (auto simp add: simulate_error_def crash_limit_reached_def Let_def
      split: prod.splits dest: memory_leak_simulation_count)

lemma simulate_error_panic:
  assumes "draw r < ERROR_RATE cfg" and "ERROR_TYPE cfg = ''panic''"
    and "\<not> crash_limit_reached cfg st"
  shows "simulate_error cfg r st =
           (Raise (random_choice ERROR_MESSAGES (pick r)),
            fst (memory_leak_simulation cfg (st\<lparr>request_count := request_count st + 1\<rparr>)) @
              [(ERROR, error_message (request_count st + 1)
                         (random_choice ERROR_MESSAGES (pick r)))],
            snd (memory_leak_simulation cfg (st\<lparr>request_count := request_count st + 1\<rparr>)))"
  using assms
  by (simp add: simulate_error_def crash_limit_reached_def Let_def memory_leak_simulation_def
      split: prod.splits)

text \<open>
  A call that reaches the crash limit leaves at line 48, before line 57: it reads no random
  number, and its result is the same whatever the generator would have given.
\<close>

lemma simulate_error_crash_reads_no_random:
  "crash_limit_reached cfg st \<Longrightarrow> simulate_error cfg r st = simulate_error cfg r' st"
  by (simp add: simulate_error_crash)

text \<open>
  Claim C5. A call makes the draw of line 57 only when the test of line 46 is false, so
  the calls on which the draw is below \<^verbatim>\<open>ERROR_RATE\<close> are calls that did not reach the
  crash limit. On such a call, when \<^verbatim>\<open>ERROR_TYPE\<close> is \<^verbatim>\<open>panic\<close>,
  \<^verbatim>\<open>simulate_error\<close> raises an exception whose message is the element chosen from
  \<^verbatim>\<open>ERROR_MESSAGES\<close>, after logging it as the last record of the call. The exception
  leaves \<^verbatim>\<open>index\<close> and the background loop's turn as it left \<^verbatim>\<open>simulate_error\<close>. It
  is not an exit, and it is raised with the crash limit switched off as well as below a
  positive limit: the next request is served on the globals the call left.
\<close>

theorem panic_raised_below_crash_limit:
  assumes "draw r < ERROR_RATE cfg" and "ERROR_TYPE cfg = ''panic''"
    and "\<not> crash_limit_reached cfg st"
  shows "fst (simulate_error cfg r st) = Raise (random_choice ERROR_MESSAGES (pick r)) \<and>
         random_choice ERROR_MESSAGES (pick r) \<in> set ERROR_MESSAGES \<and>
         last (fst (snd (simulate_error cfg r st))) =
           (ERROR, error_message (request_count st + 1)
                     (random_choice ERROR_MESSAGES (pick r))) \<and>
         fst (index cfg r st) = Raise (random_choice ERROR_MESSAGES (pick r)) \<and>
         fst (background_logger_turn cfg r st) = Raise (random_choice ERROR_MESSAGES (pick r)) \<and>
         \<not> is_exit (fst (index cfg r st)) \<and>
         fst (calls (index cfg) st (r # rs)) =
           (fst (index cfg r st), fst (snd (index cfg r st))) #
           fst (calls (index cfg) (snd (snd (index cfg r st))) rs)"
proof -
  note p = simulate_error_panic [OF assms]
  have raised: "fst (simulate_error cfg r st) = Raise (random_choice ERROR_MESSAGES (pick r))"
    by (simp add: p)
  then have ix: "fst (index cfg r st) = Raise (random_choice ERROR_MESSAGES (pick r))"
    and bg: "fst (background_logger_turn cfg r st) =
               Raise (random_choice ERROR_MESSAGES (pick r))"
    by (simp_all add: index_simulate_error background_logger_turn_simulate_error)
  from ix have ne: "\<not> is_exit (fst (index cfg r st))"
    by simp
  have "last (fst (snd (simulate_error cfg r st))) =
          (ERROR, error_message (request_count st + 1) (random_choice ERROR_MESSAGES (pick r)))"
    by (simp add: p)
  with raised ix bg ne random_choice_ERROR_MESSAGES [of "pick r"] show ?thesis
    by (simp add: calls_step del: calls.simps)
qed

theorem panic_raised_below_crash_limit_witness:
  "fst (calls (index
      \<lparr>ERROR_TYPE = ''panic'', ERROR_RATE = 1/2, CRASH_AFTER = 5, OOM_TRIGGER = False\<rparr>)
      initial_state [\<lparr>draw = 1/4, pick = 2\<rparr>, \<lparr>draw = 3/4, pick = 2\<rparr>]) =
   [(Raise ''TimeoutException: Request to external API timed out after 30s'',
     [(ERROR, cross_mark @
        '' ERROR [1]: TimeoutException: Request to external API timed out after 30s'')]),
    (Return \<lparr>status = 200,
       body = JObject [(''message'', JString ''Python service running''),
                       (''requests'', JInt 2),
                       (''error_type'', JString ''panic''),
                       (''error_rate'', JFloat (1/2))]\<rparr>, [])]"
  using panic_raised_below_crash_limit
    [of "\<lparr>draw = 1/4, pick = 2\<rparr>"
        "\<lparr>ERROR_TYPE = ''panic'', ERROR_RATE = 1/2, CRASH_AFTER = 5, OOM_TRIGGER = False\<rparr>"
        initial_state "[\<lparr>draw = 3/4, pick = 2\<rparr>]"]
  by (simp add: crash_limit_reached_def initial_state_def index_def simulate_error_def
      memory_leak_simulation_def Let_def random_choice_def ERROR_MESSAGES_def
      error_message_def error_prefix_def str_int_def str_nat.simps specific_error_types_def)

subsection \<open>The probabilistic error\<close>

lemma probabilistic_errors_append:
  "probabilistic_errors (xs @ ys) = probabilistic_errors xs @ probabilistic_errors ys"
  by (simp add: probabilistic_errors_def)

lemma probabilistic_errors_specific:
  "probabilistic_errors (specific_error_types cfg) = []"
  by (simp add: probabilistic_errors_def specific_error_types_def error_prefix_def)

lemma probabilistic_errors_leak:
  "probabilistic_errors (fst (memory_leak_simulation cfg st)) = []"
  by (simp add: probabilistic_errors_def memory_leak_simulation_def Let_def)

lemma probabilistic_errors_error_message:
  "probabilistic_errors [(ERROR, error_message n m)] = [(ERROR, error_message n m)]"
  by (simp add: probabilistic_errors_def error_message_def)

text \<open>
  With \<^verbatim>\<open>ERROR_RATE = 1\<close> and \<^verbatim>\<open>CRASH_AFTER = 1\<close> the first call logs the critical
  record alone: line 59 is not reached. So the second half of claim C4, for every call,
  does not hold.
\<close>

theorem error_rate_one_counterexample:
  "ERROR_RATE \<lparr>ERROR_TYPE = ''none'', ERROR_RATE = 1, CRASH_AFTER = 1, OOM_TRIGGER = False\<rparr> = 1 \<and>
   valid_rnd \<lparr>draw = 1/2, pick = 0\<rparr> \<and>
   fst (snd (simulate_error
     \<lparr>ERROR_TYPE = ''none'', ERROR_RATE = 1, CRASH_AFTER = 1, OOM_TRIGGER = False\<rparr>
     \<lparr>draw = 1/2, pick = 0\<rparr> initial_state)) =
     [(CRITICAL, collision @ '' FATAL: Crash limit reached after 1 requests!'')] \<and>
   probabilistic_errors (fst (snd (simulate_error
     \<lparr>ERROR_TYPE = ''none'', ERROR_RATE = 1, CRASH_AFTER = 1, OOM_TRIGGER = False\<rparr>
     \<lparr>draw = 1/2, pick = 0\<rparr> initial_state))) = []"
  by (simp add: simulate_error_def initial_state_def crash_message_def str_int_def
      str_nat.simps valid_rnd_def probabilistic_errors_def)

text \<open>
  Claim C4, with its second half for the calls that do not reach the crash limit. With
  \<^verbatim>\<open>ERROR_RATE = 0\<close> no call logs a record of line 59, whatever the draw in \<open>[0, 1)\<close>
  is. With \<^verbatim>\<open>ERROR_RATE = 1\<close> every call on which the test of line 46 is false logs
  exactly one such record, for the counter after the increment and the chosen message.
\<close>

theorem error_rate_zero_and_one:
  "(ERROR_RATE cfg = 0 \<and> valid_rnd r \<longrightarrow>
      probabilistic_errors (fst (snd (simulate_error cfg r st))) = []) \<and>
   (ERROR_RATE cfg = 1 \<and> valid_rnd r \<and> \<not> crash_limit_reached cfg st \<longrightarrow>
      probabilistic_errors (fst (snd (simulate_error cfg r st))) =
        [(ERROR, error_message (request_count st + 1)
                   (random_choice ERROR_MESSAGES (pick r)))])"
proof (intro conjI impI)
  assume "ERROR_RATE cfg = 0 \<and> valid_rnd r"
  then have nd: "\<not> draw r < ERROR_RATE cfg"
    by (simp add: valid_rnd_def)
  show "probabilistic_errors (fst (snd (simulate_error cfg r st))) = []"
  proof (cases "crash_limit_reached cfg st")
    case True
    then show ?thesis
      by (simp add: simulate_error_crash probabilistic_errors_def)
  next
    case False
    from simulate_error_log [OF this, of r] nd show ?thesis
      by (simp add: probabilistic_errors_append probabilistic_errors_specific
          probabilistic_errors_leak)
  qed
next
  assume a: "ERROR_RATE cfg = 1 \<and> valid_rnd r \<and> \<not> crash_limit_reached cfg st"
  then have d: "draw r < ERROR_RATE cfg" and nc: "\<not> crash_limit_reached cfg st"
    by (simp_all add: valid_rnd_def)
  have "probabilistic_errors
          ((ERROR, error_message (request_count st + 1)
                     (random_choice ERROR_MESSAGES (pick r))) #
           (if ERROR_TYPE cfg = ''panic'' then [] else specific_error_types cfg)) =
        [(ERROR, error_message (request_count st + 1)
                   (random_choice ERROR_MESSAGES (pick r)))]"
    using probabilistic_errors_append
      [of "[(ERROR, error_message (request_count st + 1)
                      (random_choice ERROR_MESSAGES (pick r)))]"
          "if ERROR_TYPE cfg = ''panic'' then [] else specific_error_types cfg"]
    by (simp add: probabilistic_errors_error_message probabilistic_errors_specific)
       (simp add: probabilistic_errors_def)
  with simulate_error_log [OF nc, of r] d
  show "probabilistic_errors (fst (snd (simulate_error cfg r st))) =
        [(ERROR, error_message (request_count st + 1)
                   (random_choice ERROR_MESSAGES (pick r)))]"
    by (simp add: probabilistic_errors_append probabilistic_errors_leak)
qed

theorem error_rate_zero_and_one_witness:
  "probabilistic_errors (fst (snd (simulate_error
      \<lparr>ERROR_TYPE = ''db-error'', ERROR_RATE = 0, CRASH_AFTER = 0, OOM_TRIGGER = False\<rparr>
      \<lparr>draw = 0, pick = 4\<rparr> initial_state))) = [] \<and>
   probabilistic_errors (fst (snd (simulate_error
      \<lparr>ERROR_TYPE = ''db-error'', ERROR_RATE = 1, CRASH_AFTER = 0, OOM_TRIGGER = False\<rparr>
      \<lparr>draw = 7/8, pick = 4\<rparr> initial_state))) =
     [(ERROR, cross_mark @
        '' ERROR [1]: PermissionDenied: Insufficient permissions to access resource'')]"
  using
    error_rate_zero_and_one
      [of "\<lparr>ERROR_TYPE = ''db-error'', ERROR_RATE = 0, CRASH_AFTER = 0, OOM_TRIGGER = False\<rparr>"
          "\<lparr>draw = 0, pick = 4\<rparr>" initial_state]
    error_rate_zero_and_one
      [of "\<lparr>ERROR_TYPE = ''db-error'', ERROR_RATE = 1, CRASH_AFTER = 0, OOM_TRIGGER = False\<rparr>"
          "\<lparr>draw = 7/8, pick = 4\<rparr>" initial_state]
  by (simp add: valid_rnd_def crash_limit_reached_def initial_state_def random_choice_def
      ERROR_MESSAGES_def error_message_def error_prefix_def str_int_def str_nat.simps)

subsection \<open>The metrics view\<close>

text \<open>
  Claim C8. For every configuration and all globals, \<^verbatim>\<open>metrics\<close> answers with status
  200 and the object of \<^verbatim>\<open>requests_total\<close> (the current counter), \<^verbatim>\<open>error_type\<close> and
  \<^verbatim>\<open>timestamp\<close>; it logs nothing, so no record of any step of \<^verbatim>\<open>simulate_error\<close>
  appears, and it leaves \<^verbatim>\<open>request_count\<close> and \<^verbatim>\<open>memory_leak\<close> as they were, where a
  call of \<^verbatim>\<open>simulate_error\<close> would not. The same holds of any number of requests in
  a row: every one is answered, the log is empty and the globals are unchanged.
\<close>

theorem metrics_changes_nothing:
  "fst (metrics cfg now st) =
     Return \<lparr>status = 200,
             body = JObject [(''requests_total'', JInt (request_count st)),
                             (''error_type'', JString (ERROR_TYPE cfg)),
                             (''timestamp'', JString now)]\<rparr> \<and>
   fst (snd (metrics cfg now st)) = [] \<and>
   request_count (snd (snd (metrics cfg now st))) = request_count st \<and>
   memory_leak (snd (snd (metrics cfg now st))) = memory_leak st \<and>
   snd (snd (metrics cfg now st)) \<noteq> snd (snd (simulate_error cfg r st)) \<and>
   length (fst (calls (metrics cfg) st nows)) = length nows \<and>
   all_logs (fst (calls (metrics cfg) st nows)) = [] \<and>
   snd (calls (metrics cfg) st nows) = st"
proof -
  have "request_count (snd (snd (simulate_error cfg r st))) \<noteq> request_count st"
    by (simp add: simulate_error_count)
  then have differs: "st \<noteq> snd (snd (simulate_error cfg r st))"
    by auto
  have "length (fst (calls (metrics cfg) st nows)) = length nows \<and>
        all_logs (fst (calls (metrics cfg) st nows)) = [] \<and>
        snd (calls (metrics cfg) st nows) = st"
  proof (induction nows)
    case Nil
    show ?case by (simp add: all_logs_def)
  next
    case (Cons n nows)
    have "\<not> is_exit (fst (metrics cfg n st))" and "fst (snd (metrics cfg n st)) = []"
      and "snd (snd (metrics cfg n st)) = st"
      by (simp_all add: metrics_def)
    with Cons.IH show ?case
      by (simp add: calls_step all_logs_def del: calls.simps)
  qed
  with differs show ?thesis
    by (simp add: metrics_def)
qed

theorem metrics_changes_nothing_witness:
  "calls (metrics \<lparr>ERROR_TYPE = ''panic'', ERROR_RATE = 1, CRASH_AFTER = 1, OOM_TRIGGER = True\<rparr>)
     \<lparr>request_count = 7, memory_leak = [replicate 10000 0]\<rparr>
     [''2024-05-01T10:00:00.000001'', ''2024-05-01T10:00:05.250000''] =
   ([(Return \<lparr>status = 200,
              body = JObject [(''requests_total'', JInt 7),
                              (''error_type'', JString ''panic''),
                              (''timestamp'', JString ''2024-05-01T10:00:00.000001'')]\<rparr>, []),
     (Return \<lparr>status = 200,
              body = JObject [(''requests_total'', JInt 7),
                              (''error_type'', JString ''panic''),
                              (''timestamp'', JString ''2024-05-01T10:00:05.250000'')]\<rparr>, [])],
    \<lparr>request_count = 7, memory_leak = [replicate 10000 0]\<rparr>)"
  using metrics_changes_nothing
    [of "\<lparr>ERROR_TYPE = ''panic'', ERROR_RATE = 1, CRASH_AFTER = 1, OOM_TRIGGER = True\<rparr>"
        "''2024-05-01T10:00:00.000001''"
        "\<lparr>request_count = 7, memory_leak = [replicate 10000 0]\<rparr>"
        "\<lparr>draw = 0, pick = 0\<rparr>"
        "[''2024-05-01T10:00:00.000001'', ''2024-05-01T10:00:05.250000'']"]
  by (simp add: metrics_def)

subsection \<open>Three requests with a fixed error type\<close>

text \<open>
  Claim C7. Under the configuration \<^verbatim>\<open>ERROR_TYPE=db-error\<close>, \<^verbatim>\<open>ERROR_RATE=0\<close>,
  \<^verbatim>\<open>CRASH_AFTER=0\<close>, \<^verbatim>\<open>OOM_TRIGGER=false\<close>, three requests of \<^verbatim>\<open>/\<close> in a row
  from the initial globals, with any draws in \<open>[0, 1)\<close>, each log the fixed record of
  line 68 and nothing else, leave \<^verbatim>\<open>request_count\<close> at 3, and are answered with status
  200; the body of the third answer has \<^verbatim>\<open>requests\<close> 3, \<^verbatim>\<open>error_type\<close>
  \<^verbatim>\<open>db-error\<close> and \<^verbatim>\<open>error_rate\<close> 0.
\<close>

theorem three_requests_db_error:
  assumes "cfg = \<lparr>ERROR_TYPE = ''db-error'', ERROR_RATE = 0, CRASH_AFTER = 0,
                   OOM_TRIGGER = False\<rparr>"
    and "valid_rnd r1" and "valid_rnd r2" and "valid_rnd r3"
  shows "calls (index cfg) initial_state [r1, r2, r3] =
    ([(Return \<lparr>status = 200,
               body = JObject [(''message'', JString ''Python service running''),
                               (''requests'', JInt 1),
                               (''error_type'', JString ''db-error''),
                               (''error_rate'', JFloat 0)]\<rparr>,
       [(ERROR, cross_mark @
           '' DatabaseError: Connection pool exhausted, max connections: 100'')]),
      (Return \<lparr>status = 200,
               body = JObject [(''message'', JString ''Python service running''),
                               (''requests'', JInt 2),
                               (''error_type'', JString ''db-error''),
                               (''error_rate'', JFloat 0)]\<rparr>,
       [(ERROR, cross_mark @
           '' DatabaseError: Connection pool exhausted, max connections: 100'')]),
      (Return \<lparr>status = 200,
               body = JObject [(''message'', JString ''Python service running''),
                               (''requests'', JInt 3),
                               (''error_type'', JString ''db-error''),
                               (''error_rate'', JFloat 0)]\<rparr>,
       [(ERROR, cross_mark @
           '' DatabaseError: Connection pool exhausted, max connections: 100'')])],
     \<lparr>request_count = 3, memory_leak = []\<rparr>)"
proof -
  have step: "index cfg r st =
      (Return \<lparr>status = 200,
               body = JObject [(''message'', JString ''Python service running''),
                               (''requests'', JInt (request_count st + 1)),
                               (''error_type'', JString ''db-error''),
                               (''error_rate'', JFloat 0)]\<rparr>,
       [(ERROR, cross_mark @
           '' DatabaseError: Connection pool exhausted, max connections: 100'')],
       st\<lparr>request_count := request_count st + 1\<rparr>)"
    if "valid_rnd r" for r st
    using that assms(1)
    by (simp add: index_def simulate_error_def memory_leak_simulation_def
        specific_error_types_def valid_rnd_def)
  show ?thesis
    by (simp add: step [OF assms(2)] step [OF assms(3)] step [OF assms(4)] initial_state_def)
qed

theorem three_requests_db_error_witness:
  "fst (last (fst (calls
       (index \<lparr>ERROR_TYPE = ''db-error'', ERROR_RATE = 0, CRASH_AFTER = 0,
                 OOM_TRIGGER = False\<rparr>)
       initial_state
       [\<lparr>draw = 0, pick = 0\<rparr>, \<lparr>draw = 1/2, pick = 3\<rparr>, \<lparr>draw = 9/10, pick = 9\<rparr>]))) =
     Return \<lparr>status = 200,
             body = JObject [(''message'', JString ''Python service running''),
                             (''requests'', JInt 3),
                             (''error_type'', JString ''db-error''),
                             (''error_rate'', JFloat 0)]\<rparr> \<and>
   all_logs (fst (calls
       (index \<lparr>ERROR_TYPE = ''db-error'', ERROR_RATE = 0, CRASH_AFTER = 0,
                 OOM_TRIGGER = False\<rparr>)
       initial_state
       [\<lparr>draw = 0, pick = 0\<rparr>, \<lparr>draw = 1/2, pick = 3\<rparr>, \<lparr>draw = 9/10, pick = 9\<rparr>])) =
     replicate 3
       (ERROR, cross_mark @
          '' DatabaseError: Connection pool exhausted, max connections: 100'') \<and>
   request_count (snd (calls
       (index \<lparr>ERROR_TYPE = ''db-error'', ERROR_RATE = 0, CRASH_AFTER = 0,
                 OOM_TRIGGER = False\<rparr>)
       initial_state
       [\<lparr>draw = 0, pick = 0\<rparr>, \<lparr>draw = 1/2, pick = 3\<rparr>, \<lparr>draw = 9/10, pick = 9\<rparr>])) =
     3"
  using three_requests_db_error
    [of "\<lparr>ERROR_TYPE = ''db-error'', ERROR_RATE = 0, CRASH_AFTER = 0, OOM_TRIGGER = False\<rparr>"
        "\<lparr>draw = 0, pick = 0\<rparr>" "\<lparr>draw = 1/2, pick = 3\<rparr>" "\<lparr>draw = 9/10, pick = 9\<rparr>"]
  by (simp add: valid_rnd_def all_logs_def numeral_3_eq_3)

subsection \<open>The memory leak\<close>

lemma simulate_error_state:
  "\<not> crash_limit_reached cfg st \<Longrightarrow>
   snd (snd (simulate_error cfg r st)) =
     snd (memory_leak_simulation cfg (st\<lparr>request_count := request_count st + 1\<rparr>))"
  by (auto simp add: simulate_error_def crash_limit_reached_def Let_def split: prod.splits)

lemma at_level_append:
  "at_level l (xs @ ys) = at_level l xs @ at_level l ys"
  by (simp add: at_level_def)

lemma at_level_Cons:
  "at_level l (e # es) = (if fst e = l then e # at_level l es else at_level l es)"
  by (simp add: at_level_def)

lemma at_level_Nil: "at_level l [] = []"
  by (simp add: at_level_def)

lemma at_level_specific:
  "l \<noteq> ERROR \<Longrightarrow> at_level l (specific_error_types cfg) = []"
  by (simp add: at_level_def specific_error_types_def)

lemma leak_step:
  assumes "OOM_TRIGGER cfg" and "\<not> crash_limit_reached cfg st"
  shows "memory_leak (snd (snd (simulate_error cfg r st))) =
           memory_leak st @ [replicate 10000 0]"
    and "at_level WARNING (fst (snd (simulate_error cfg r st))) =
           (if Suc (length (memory_leak st)) mod 10 = 0
            then [(WARNING, leak_message (Suc (length (memory_leak st))))] else [])"
proof -
  show "memory_leak (snd (snd (simulate_error cfg r st))) =
           memory_leak st @ [replicate 10000 0]"
    using assms by (simp add: simulate_error_state memory_leak_simulation_def Let_def)
  have "at_level WARNING (fst (snd (simulate_error cfg r st))) =
        at_level WARNING
          (fst (memory_leak_simulation cfg (st\<lparr>request_count := request_count st + 1\<rparr>)))"
    by (simp add: simulate_error_log [OF assms(2)] at_level_append at_level_specific
        at_level_Cons at_level_Nil)
  then show "at_level WARNING (fst (snd (simulate_error cfg r st))) =
           (if Suc (length (memory_leak st)) mod 10 = 0
            then [(WARNING, leak_message (Suc (length (memory_leak st))))] else [])"
    using assms(1)
    by (simp add: memory_leak_simulation_def Let_def at_level_Cons at_level_Nil)
qed

lemma all_logs_Cons:
  "all_logs (e # tr) = snd e @ all_logs tr"
  by (simp add: all_logs_def)

lemma calls_leak:
  assumes "OOM_TRIGGER cfg"
  shows "CRASH_AFTER cfg \<le> 0 \<or> request_count st + int (length rs) < CRASH_AFTER cfg \<Longrightarrow>
   memory_leak (snd (calls (simulate_error cfg) st rs)) =
     memory_leak st @ replicate (length rs) (replicate 10000 0) \<and>
   at_level WARNING (all_logs (fst (calls (simulate_error cfg) st rs))) =
     map (\<lambda>k. (WARNING, leak_message k))
       (filter (\<lambda>k. k mod 10 = 0)
          [Suc (length (memory_leak st)) ..< Suc (length (memory_leak st) + length rs)])"
proof (induction rs arbitrary: st)
  case Nil
  show ?case by (simp add: all_logs_def at_level_Nil)
next
  case (Cons r rs)
  let ?st1 = "snd (snd (simulate_error cfg r st))"
  from Cons.prems have nc: "\<not> crash_limit_reached cfg st"
    by (auto simp add: crash_limit_reached_def)
  note step = leak_step [OF assms nc, of r]
  have ne: "\<not> is_exit (fst (simulate_error cfg r st))"
    using simulate_error_no_crash [OF nc, of r] by simp
  have "request_count ?st1 = request_count st + 1"
    by (rule simulate_error_count)
  with Cons.prems
  have "CRASH_AFTER cfg \<le> 0 \<or> request_count ?st1 + int (length rs) < CRASH_AFTER cfg"
    by auto
  note ih = Cons.IH [OF this]
  have len1: "length (memory_leak ?st1) = Suc (length (memory_leak st))"
    by (simp add: step(1))
  have upt: "[Suc (length (memory_leak st)) ..< Suc (length (memory_leak st) + length (r # rs))] =
             Suc (length (memory_leak st)) #
             [Suc (length (memory_leak ?st1)) ..< Suc (length (memory_leak ?st1) + length rs)]"
  proof -
    have "Suc (length (memory_leak st)) < Suc (length (memory_leak st) + length (r # rs))"
      by simp
    from upt_conv_Cons [OF this] show ?thesis
      by (simp add: len1 del: upt_Suc)
  qed
  have "memory_leak (snd (calls (simulate_error cfg) st (r # rs))) =
        memory_leak st @ replicate (length (r # rs)) (replicate 10000 0)"
    using ih ne by (simp add: calls_step step(1) del: calls.simps)
  moreover
  have "at_level WARNING (all_logs (fst (calls (simulate_error cfg) st (r # rs)))) =
        at_level WARNING (fst (snd (simulate_error cfg r st))) @
        at_level WARNING (all_logs (fst (calls (simulate_error cfg) ?st1 rs)))"
    using ne by (simp add: calls_step all_logs_Cons at_level_append del: calls.simps)
  then have "at_level WARNING (all_logs (fst (calls (simulate_error cfg) st (r # rs)))) =
     map (\<lambda>k. (WARNING, leak_message k))
       (filter (\<lambda>k. k mod 10 = 0)
          [Suc (length (memory_leak st)) ..< Suc (length (memory_leak st) + length (r # rs))])"
    unfolding upt using ih by (simp add: step(2))
  ultimately show ?case by blast
qed

lemma one_to_ten: "[Suc 0 ..< Suc 10] = [1, 2, 3, 4, 5, 6, 7, 8, 9, 10 :: nat]"
  by (simp add: upt_conv_Cons numeral_eq_Suc del: upt_Suc)

lemma tenth_of_ten: "filter (\<lambda>k. k mod 10 = 0) [Suc 0 ..< Suc 10] = [10::nat]"
  unfolding one_to_ten by simp

lemma leak_message_10:
  "leak_message 10 = warning_sign @ ''  Memory leak: 100000 items allocated''"
  by (simp add: leak_message_def str_int_def str_nat.simps)

lemma tenths_of_twenty: "filter (\<lambda>k. k mod 10 = 0) [Suc 0 ..< 21] = [10, 20 :: nat]"
proof -
  have "[Suc 0 ..< 21] =
        [1, 2, 3, 4, 5, 6, 7, 8, 9, 10, 11, 12, 13, 14, 15, 16, 17, 18, 19, 20 :: nat]"
    by (simp add: upt_conv_Cons numeral_eq_Suc del: upt_Suc)
  then show ?thesis by simp
qed

text \<open>
  Claim C6. Let \<^verbatim>\<open>OOM_TRIGGER\<close> be set. Every call of \<^verbatim>\<open>simulate_error\<close> that does not
  reach the crash limit appends exactly one block of 10000 zeros to \<^verbatim>\<open>memory_leak\<close>, and
  logs a warning exactly when the new length is a multiple of 10; the text of the warning
  is that of line 54 with the new length times 10000 printed in it. Over calls made in a
  row from the initial globals without reaching the crash limit, \<^verbatim>\<open>memory_leak\<close> holds one
  block of 10000 per call, that many times 10000 units in all, and the warnings are those
  of the lengths 10, 20, ... up to the number of calls, in order, each printing its own
  length times 10000: the units leaked when it was logged. After exactly 10 calls all 10
  were made, \<^verbatim>\<open>memory_leak\<close> holds 10 blocks of 10000, 100000 units in all, and the log
  holds exactly one warning, which reports 100000 items.
\<close>

theorem leak_grows_by_one_block:
  assumes "OOM_TRIGGER cfg"
  shows "(\<not> crash_limit_reached cfg st \<longrightarrow>
            memory_leak (snd (snd (simulate_error cfg r st))) =
              memory_leak st @ [replicate 10000 0] \<and>
            at_level WARNING (fst (snd (simulate_error cfg r st))) =
              (if Suc (length (memory_leak st)) mod 10 = 0
               then [(WARNING,
                      warning_sign @ ''  Memory leak: '' @
                      str_int (int (Suc (length (memory_leak st))) * 10000) @
                      '' items allocated'')]
               else [])) \<and>
         (CRASH_AFTER cfg \<le> 0 \<or> int (length rs) < CRASH_AFTER cfg \<longrightarrow>
            memory_leak (snd (calls (simulate_error cfg) initial_state rs)) =
              replicate (length rs) (replicate 10000 0) \<and>
            sum_list (map length (memory_leak (snd (calls (simulate_error cfg) initial_state rs))))
              = length rs * 10000 \<and>
            at_level WARNING (all_logs (fst (calls (simulate_error cfg) initial_state rs))) =
              map (\<lambda>k. (WARNING,
                         warning_sign @ ''  Memory leak: '' @ str_int (int k * 10000) @
                         '' items allocated''))
                (filter (\<lambda>k. k mod 10 = 0) [Suc 0 ..< Suc (length rs)])) \<and>
         (length rs = 10 \<and> (CRASH_AFTER cfg \<le> 0 \<or> 10 < CRASH_AFTER cfg) \<longrightarrow>
            length (fst (calls (simulate_error cfg) initial_state rs)) = 10 \<and>
            memory_leak (snd (calls (simulate_error cfg) initial_state rs)) =
              replicate 10 (replicate 10000 0) \<and>
            sum_list (map length (memory_leak (snd (calls (simulate_error cfg) initial_state rs))))
              = 100000 \<and>
            at_level WARNING (all_logs (fst (calls (simulate_error cfg) initial_state rs))) =
              [(WARNING, warning_sign @ ''  Memory leak: 100000 items allocated'')])"
proof (intro conjI impI)
  assume nc: "\<not> crash_limit_reached cfg st"
  from leak_step [OF assms nc, of r]
  show "memory_leak (snd (snd (simulate_error cfg r st))) = memory_leak st @ [replicate 10000 0]"
    and "at_level WARNING (fst (snd (simulate_error cfg r st))) =
          (if Suc (length (memory_leak st)) mod 10 = 0
           then [(WARNING,
                  warning_sign @ ''  Memory leak: '' @
                  str_int (int (Suc (length (memory_leak st))) * 10000) @
                  '' items allocated'')]
           else [])"
    by (simp_all add: leak_message_def)
next
  assume "CRASH_AFTER cfg \<le> 0 \<or> int (length rs) < CRASH_AFTER cfg"
  then have "CRASH_AFTER cfg \<le> 0 \<or>
             request_count initial_state + int (length rs) < CRASH_AFTER cfg"
    by (simp add: initial_state_def)
  from calls_leak [OF assms this]
  have blocks: "memory_leak (snd (calls (simulate_error cfg) initial_state rs)) =
          replicate (length rs) (replicate 10000 0)"
    and warnings: "at_level WARNING (all_logs (fst (calls (simulate_error cfg) initial_state rs))) =
          map (\<lambda>k. (WARNING, leak_message k))
            (filter (\<lambda>k. k mod 10 = 0) [Suc 0 ..< Suc (length rs)])"
    by (simp_all add: initial_state_def)
  from blocks
  show "memory_leak (snd (calls (simulate_error cfg) initial_state rs)) =
          replicate (length rs) (replicate 10000 0)" .
  from blocks
  show "sum_list (map length (memory_leak (snd (calls (simulate_error cfg) initial_state rs))))
          = length rs * 10000"
    by (simp add: sum_list_replicate)
  from warnings
  show "at_level WARNING (all_logs (fst (calls (simulate_error cfg) initial_state rs))) =
          map (\<lambda>k. (WARNING,
                     warning_sign @ ''  Memory leak: '' @ str_int (int k * 10000) @
                     '' items allocated''))
            (filter (\<lambda>k. k mod 10 = 0) [Suc 0 ..< Suc (length rs)])"
    by (simp only: leak_message_def)
next
  assume ten: "length rs = 10 \<and> (CRASH_AFTER cfg \<le> 0 \<or> 10 < CRASH_AFTER cfg)"
  then have below: "CRASH_AFTER cfg \<le> 0 \<or>
             request_count initial_state + int (length rs) < CRASH_AFTER cfg"
    by (auto simp add: initial_state_def)
  from calls_below_limit [OF below] ten
  show "length (fst (calls (simulate_error cfg) initial_state rs)) = 10"
    by simp
  from calls_leak [OF assms below] ten
  have blocks: "memory_leak (snd (calls (simulate_error cfg) initial_state rs)) =
          replicate 10 (replicate 10000 0)"
    and warnings: "at_level WARNING (all_logs (fst (calls (simulate_error cfg) initial_state rs))) =
          map (\<lambda>k. (WARNING, leak_message k))
            (filter (\<lambda>k. k mod 10 = 0) [Suc 0 ..< Suc 10])"
    by (simp_all add: initial_state_def)
  from blocks
  show "memory_leak (snd (calls (simulate_error cfg) initial_state rs)) =
          replicate 10 (replicate 10000 0)" .
  from blocks
  show "sum_list (map length (memory_leak (snd (calls (simulate_error cfg) initial_state rs))))
          = 100000"
    by (simp add: sum_list_replicate)
  from warnings
  show "at_level WARNING (all_logs (fst (calls (simulate_error cfg) initial_state rs))) =
          [(WARNING, warning_sign @ ''  Memory leak: 100000 items allocated'')]"
    by (simp only: tenth_of_ten leak_message_10 list.map)
qed

theorem leak_grows_by_one_block_witness:
  "memory_leak (snd (calls (simulate_error
       \<lparr>ERROR_TYPE = ''none'', ERROR_RATE = 1/2, CRASH_AFTER = 0, OOM_TRIGGER = True\<rparr>)
       initial_state (replicate 10 \<lparr>draw = 1/4, pick = 6\<rparr>))) =
     replicate 10 (replicate 10000 0) \<and>
   at_level WARNING (all_logs (fst (calls (simulate_error
       \<lparr>ERROR_TYPE = ''none'', ERROR_RATE = 1/2, CRASH_AFTER = 0, OOM_TRIGGER = True\<rparr>)
       initial_state (replicate 10 \<lparr>draw = 1/4, pick = 6\<rparr>)))) =
     [(WARNING, warning_sign @ ''  Memory leak: 100000 items allocated'')] \<and>
   at_level WARNING (all_logs (fst (calls (simulate_error
       \<lparr>ERROR_TYPE = ''none'', ERROR_RATE = 1/2, CRASH_AFTER = 0, OOM_TRIGGER = True\<rparr>)
       initial_state (replicate 20 \<lparr>draw = 1/4, pick = 6\<rparr>)))) =
     [(WARNING, warning_sign @ ''  Memory leak: 100000 items allocated''),
      (WARNING, warning_sign @ ''  Memory leak: 200000 items allocated'')] \<and>
   memory_leak (snd (snd (simulate_error
       \<lparr>ERROR_TYPE = ''none'', ERROR_RATE = 1/2, CRASH_AFTER = 0, OOM_TRIGGER = True\<rparr>
       \<lparr>draw = 1/4, pick = 6\<rparr> initial_state))) = [replicate 10000 0] \<and>
   at_level WARNING (fst (snd (simulate_error
       \<lparr>ERROR_TYPE = ''none'', ERROR_RATE = 1/2, CRASH_AFTER = 0, OOM_TRIGGER = True\<rparr>
       \<lparr>draw = 1/4, pick = 6\<rparr>
       \<lparr>request_count = 29, memory_leak = replicate 29 (replicate 10000 0)\<rparr>))) =
     [(WARNING, warning_sign @ ''  Memory leak: 300000 items allocated'')]"
proof -
  have oom: "OOM_TRIGGER
      \<lparr>ERROR_TYPE = ''none'', ERROR_RATE = 1/2, CRASH_AFTER = 0, OOM_TRIGGER = True\<rparr>"
    by simp
  note t10 = leak_grows_by_one_block
    [OF oom, of initial_state "\<lparr>draw = 1/4, pick = 6\<rparr>" "replicate 10 \<lparr>draw = 1/4, pick = 6\<rparr>"]
  note t20 = leak_grows_by_one_block
    [OF oom, of "\<lparr>request_count = 29, memory_leak = replicate 29 (replicate 10000 0)\<rparr>"
       "\<lparr>draw = 1/4, pick = 6\<rparr>" "replicate 20 \<lparr>draw = 1/4, pick = 6\<rparr>"]
  from t10 [THEN conjunct1]
  have one: "memory_leak (snd (snd (simulate_error
       \<lparr>ERROR_TYPE = ''none'', ERROR_RATE = 1/2, CRASH_AFTER = 0, OOM_TRIGGER = True\<rparr>
       \<lparr>draw = 1/4, pick = 6\<rparr> initial_state))) = [replicate 10000 0]"
    by (simp add: crash_limit_reached_def initial_state_def)
  from t20 [THEN conjunct1]
  have thirtieth: "at_level WARNING (fst (snd (simulate_error
       \<lparr>ERROR_TYPE = ''none'', ERROR_RATE = 1/2, CRASH_AFTER = 0, OOM_TRIGGER = True\<rparr>
       \<lparr>draw = 1/4, pick = 6\<rparr>
       \<lparr>request_count = 29, memory_leak = replicate 29 (replicate 10000 0)\<rparr>))) =
     [(WARNING, warning_sign @ ''  Memory leak: 300000 items allocated'')]"
    by (simp add: crash_limit_reached_def str_int_def str_nat.simps)
  from t20 [THEN conjunct2, THEN conjunct1]
  have twenty: "at_level WARNING (all_logs (fst (calls (simulate_error
       \<lparr>ERROR_TYPE = ''none'', ERROR_RATE = 1/2, CRASH_AFTER = 0, OOM_TRIGGER = True\<rparr>)
       initial_state (replicate 20 \<lparr>draw = 1/4, pick = 6\<rparr>)))) =
     [(WARNING, warning_sign @ ''  Memory leak: 100000 items allocated''),
      (WARNING, warning_sign @ ''  Memory leak: 200000 items allocated'')]"
    by (simp add: tenths_of_twenty str_int_def str_nat.simps)
  from t10 [THEN conjunct2, THEN conjunct2] one twenty thirtieth show ?thesis
    by simp
qed

end
